theory Spec2Isabelle
  imports Complex_Main "HOL-Library.Word" "HOL-Library.AList" "HOL-Library.Sublist"
begin

section \<open>A BLE GATT server for Wi-Fi provisioning: model of \<open>server.py\<close>\<close>

text \<open>
  The development embeds the classes \<open>Application\<close>, \<open>MyService\<close>, \<open>NotifyCharacteristic\<close>
  and \<open>MyCharacteristic\<close> and the function \<open>scan_networks\<close> of \<open>server.py\<close>.

  \<^item> A Python \<open>str\<close> is the list of its Unicode code points (\<open>pystr\<close>); a D-Bus byte
    array is a list of 8-bit words.
  \<^item> A \<open>dict\<close> is an association list with distinct keys: a lookup is \<open>map_of\<close>, an
    assignment \<open>d[k] = v\<close> is \<open>AList.update\<close> (it replaces in place or appends, as Python
    does).
  \<^item> Every exception is a value of \<open>py_error\<close>; a method returns \<open>Inl e\<close> where the
    Python raises \<open>e\<close> to its caller.
  \<^item> What lies outside the repository is a parameter, collected in the record \<open>env\<close>:
    the outcome of \<open>subprocess.run\<close> on each command, \<open>json.loads\<close>, \<open>json.dumps\<close> and
    the decimal digits of the Unicode database beyond ASCII.
  \<^item> A method that acts on the outside world returns the list of its actions (\<open>event\<close>):
    the processes it started, the calls of \<open>send_notification\<close>, the
    \<open>PropertiesChanged\<close> signals and the warning of a push without subscriber. The other
    \<open>print\<close> calls are not part of the model.
\<close>

subsection \<open>Strings and bytes\<close>

type_synonym pystr = "nat list"

type_synonym byte = "8 word"

text \<open>A string literal of the source, as code points.\<close>

definition lit :: "string \<Rightarrow> pystr" where
  "lit s = map of_char s"

datatype py_error =
    UnicodeDecodeError
  | UnicodeEncodeError
  | JSONDecodeError
  | AttributeError
  | KeyError pystr
  | CalledProcessError int
  | DBusException pystr
  | Exception pystr
  | OtherError pystr

text \<open>
  \<open>bytes(value).decode('utf-8')\<close>: the strict decoder accepts exactly the well-formed
  sequences, that is the shortest encoding of a code point that is no surrogate and lies
  below \<open>0x110000\<close>.
\<close>

definition continuation :: "nat \<Rightarrow> bool" where
  "continuation b = (128 \<le> b \<and> b < 192)"

definition surrogate :: "nat \<Rightarrow> bool" where
  "surrogate c = (55296 \<le> c \<and> c < 57344)"

fun utf8_dec :: "nat list \<Rightarrow> pystr option" where
  "utf8_dec [] = Some []"
| "utf8_dec (b0 # bs) =
    (if b0 < 128 then map_option ((#) b0) (utf8_dec bs)
     else if 192 \<le> b0 \<and> b0 < 224 then
       (case bs of
          b1 # r \<Rightarrow>
            (let c = (b0 - 192) * 64 + (b1 - 128) in
             if continuation b1 \<and> 128 \<le> c then map_option ((#) c) (utf8_dec r) else None)
        | _ \<Rightarrow> None)
     else if 224 \<le> b0 \<and> b0 < 240 then
       (case bs of
          b1 # b2 # r \<Rightarrow>
            (let c = (b0 - 224) * 4096 + (b1 - 128) * 64 + (b2 - 128) in
             if continuation b1 \<and> continuation b2 \<and> 2048 \<le> c \<and> \<not> surrogate c
             then map_option ((#) c) (utf8_dec r) else None)
        | _ \<Rightarrow> None)
     else if 240 \<le> b0 \<and> b0 < 248 then
       (case bs of
          b1 # b2 # b3 # r \<Rightarrow>
            (let c = (b0 - 240) * 262144 + (b1 - 128) * 4096 + (b2 - 128) * 64 + (b3 - 128) in
             if continuation b1 \<and> continuation b2 \<and> continuation b3 \<and> 65536 \<le> c \<and> c < 1114112
             then map_option ((#) c) (utf8_dec r) else None)
        | _ \<Rightarrow> None)
     else None)"

definition utf8_decode :: "byte list \<Rightarrow> py_error + pystr" where
  "utf8_decode bs =
     (case utf8_dec (map unat bs) of None \<Rightarrow> Inl UnicodeDecodeError | Some s \<Rightarrow> Inr s)"

text \<open>
  \<open>message.encode()\<close>: UTF-8; a surrogate cannot be encoded. (A \<open>str\<close> holds no value
  from \<open>0x110000\<close> on; the model refuses them too.)
\<close>

definition utf8_enc1 :: "nat \<Rightarrow> nat list option" where
  "utf8_enc1 c =
     (if c < 128 then Some [c]
      else if c < 2048 then Some [192 + c div 64, 128 + c mod 64]
      else if c < 65536 then
        (if surrogate c then None
         else Some [224 + c div 4096, 128 + c div 64 mod 64, 128 + c mod 64])
      else if c < 1114112 then
        Some [240 + c div 262144, 128 + c div 4096 mod 64, 128 + c div 64 mod 64, 128 + c mod 64]
      else None)"

fun utf8_enc :: "pystr \<Rightarrow> nat list option" where
  "utf8_enc [] = Some []"
| "utf8_enc (c # cs) =
     (case utf8_enc1 c of
        None \<Rightarrow> None
      | Some bs \<Rightarrow> map_option ((@) bs) (utf8_enc cs))"

definition utf8_encode :: "pystr \<Rightarrow> py_error + byte list" where
  "utf8_encode s =
     (case utf8_enc s of None \<Rightarrow> Inl UnicodeEncodeError | Some bs \<Rightarrow> Inr (map of_nat bs))"

text \<open>\<open>str.strip()\<close> removes the white space of \<open>str.isspace\<close> at both ends.\<close>

definition isspace :: "nat \<Rightarrow> bool" where
  "isspace c =
     ((9 \<le> c \<and> c \<le> 13) \<or> (28 \<le> c \<and> c \<le> 32) \<or> c = 133 \<or> c = 160 \<or> c = 5760
      \<or> (8192 \<le> c \<and> c \<le> 8202) \<or> c = 8232 \<or> c = 8233 \<or> c = 8239 \<or> c = 8287
      \<or> c = 12288)"

definition strip :: "pystr \<Rightarrow> pystr" where
  "strip s = rev (dropWhile isspace (rev (dropWhile isspace s)))"

text \<open>\<open>str(index)\<close> inside an f-string, for an index that is not negative.\<close>

function str_nat :: "nat \<Rightarrow> pystr" where
  "str_nat n = (if n < 10 then [48 + n] else str_nat (n div 10) @ [48 + n mod 10])"
  by pat_completeness auto
termination
  by (relation "measure (\<lambda>n. n)") auto

subsection \<open>JSON values\<close>

datatype pyfloat = Finite rat | Infinite bool | NaN

datatype json =
    JNull
  | JBool bool
  | JInt int
  | JFloat pyfloat
  | JStr pystr
  | JList "json list"
  | JDict "(pystr \<times> json) list"

text \<open>The truth value of an object, as \<open>not ssid\<close> takes it.\<close>

fun truthy :: "json \<Rightarrow> bool" where
  "truthy JNull = False"
| "truthy (JBool b) = b"
| "truthy (JInt i) = (i \<noteq> 0)"
| "truthy (JFloat f) = (f \<noteq> Finite 0)"
| "truthy (JStr s) = (s \<noteq> [])"
| "truthy (JList xs) = (xs \<noteq> [])"
| "truthy (JDict kvs) = (kvs \<noteq> [])"

text \<open>
  \<open>data.get(key)\<close>: only a \<open>dict\<close> has the method; a missing key gives \<open>None\<close>, which
  is \<open>JNull\<close>.
\<close>

fun dict_get :: "json \<Rightarrow> pystr \<Rightarrow> py_error + json" where
  "dict_get (JDict kvs) k = Inr (case map_of kvs k of None \<Rightarrow> JNull | Some v \<Rightarrow> v)"
| "dict_get _ k = Inl AttributeError"

subsection \<open>The outside world\<close>

text \<open>The three command lines the server starts, and what \<open>subprocess.run\<close> gives back.\<close>

datatype command =
    Iwlist_wlan0_scan
  | Iwlist_scan_grep_ESSID
  | Nmcli_wifi_connect json json

datatype process =
    CompletedProcess (returncode: int) (stdout: pystr) (stderr: pystr)
  | RunError py_error

record network =
  address :: pystr
  essid :: pystr

record env =
  run :: "command \<Rightarrow> process"
  json_loads :: "pystr \<Rightarrow> py_error + json"
  json_dumps :: "network list \<Rightarrow> pystr"
  nonascii_digit :: "nat \<Rightarrow> bool"

subsection \<open>The scanner: \<open>scan_networks\<close>\<close>

text \<open>
  \<open>\d\<close> in a \<open>str\<close> pattern is a decimal digit of Unicode: \<open>0\<close> to \<open>9\<close> in ASCII, and
  what the Unicode database says beyond.
\<close>

definition is_digit :: "(nat \<Rightarrow> bool) \<Rightarrow> nat \<Rightarrow> bool" where
  "is_digit nd c = (if c < 128 then 48 \<le> c \<and> c \<le> 57 else nd c)"

text \<open>The class \<open>[\da-fA-F:]\<close>.\<close>

definition is_addr_char :: "(nat \<Rightarrow> bool) \<Rightarrow> nat \<Rightarrow> bool" where
  "is_addr_char nd c =
     (is_digit nd c \<or> (97 \<le> c \<and> c \<le> 102) \<or> (65 \<le> c \<and> c \<le> 70) \<or> c = 58)"

definition starts_with :: "pystr \<Rightarrow> pystr \<Rightarrow> bool" where
  "starts_with p s = (take (length p) s = p)"

text \<open>
  A match of \<open>Cell \d+ - Address: ([\da-fA-F:]{17})\<close> at the head of \<open>s\<close>: the group and
  the text after the match. \<open>\d+\<close> takes all the digits: the character after them must be
  a space, so giving one back never helps.
\<close>

definition match_cell :: "(nat \<Rightarrow> bool) \<Rightarrow> pystr \<Rightarrow> (pystr \<times> pystr) option" where
  "match_cell nd s =
     (if \<not> starts_with (lit ''Cell '') s then None
      else
        (let r1 = drop 5 s;
             r2 = dropWhile (is_digit nd) r1 in
         if takeWhile (is_digit nd) r1 = [] \<or> \<not> starts_with (lit '' - Address: '') r2 then None
         else
           (let r3 = drop 12 r2 in
            if 17 \<le> length r3 \<and> list_all (is_addr_char nd) (take 17 r3)
            then Some (take 17 r3, drop 17 r3) else None)))"

text \<open>
  A match of \<open>ESSID:"(.*?)"\<close> at the head of \<open>s\<close>: the lazy group runs to the next double
  quote (34), and \<open>.\<close> matches no newline (10).
\<close>

definition match_essid :: "pystr \<Rightarrow> (pystr \<times> pystr) option" where
  "match_essid s =
     (if \<not> starts_with (lit ''ESSID:'' @ [34]) s then None
      else
        (let r = drop 7 s;
             g = takeWhile (\<lambda>c. c \<noteq> 34) r;
             q = dropWhile (\<lambda>c. c \<noteq> 34) r in
         if q = [] \<or> 10 \<in> set g then None else Some (g, tl q)))"

text \<open>
  \<open>findall\<close>: the matches from left to right, none overlapping another; the search goes
  on where a match ends.
\<close>

function findall_cell :: "(nat \<Rightarrow> bool) \<Rightarrow> pystr \<Rightarrow> pystr list" where
  "findall_cell nd [] = []"
| "findall_cell nd (c # cs) =
     (case match_cell nd (c # cs) of
        None \<Rightarrow> findall_cell nd cs
      | Some (g, rest) \<Rightarrow> g # findall_cell nd rest)"
  by pat_completeness auto
termination
proof (relation "measure (\<lambda>(nd, s). length s)")
  fix nd :: "nat \<Rightarrow> bool" and c cs x2 g rest
  assume "match_cell nd (c # cs) = Some x2" and "(g, rest) = x2"
  then have m: "match_cell nd (c # cs) = Some (g, rest)"
    by simp
  define r2 where "r2 = dropWhile (is_digit nd) (drop 5 (c # cs))"
  from m have "rest = drop 17 (drop 12 r2)"
    by (simp add: match_cell_def Let_def r2_def split: if_splits)
  moreover have "length r2 \<le> length (c # cs)"
    unfolding r2_def by (rule order_trans [OF length_dropWhile_le]) simp
  ultimately have "length rest < length (c # cs)"
    by simp
  then show "((nd, rest), (nd, c # cs)) \<in> measure (\<lambda>(nd, s). length s)"
    by simp
qed auto

function findall_essid :: "pystr \<Rightarrow> pystr list" where
  "findall_essid [] = []"
| "findall_essid (c # cs) =
     (case match_essid (c # cs) of
        None \<Rightarrow> findall_essid cs
      | Some (g, rest) \<Rightarrow> g # findall_essid rest)"
  by pat_completeness auto
termination
proof (relation "measure length")
  fix c cs x2 g rest
  assume "match_essid (c # cs) = Some x2" and "(g, rest) = x2"
  then have m: "match_essid (c # cs) = Some (g, rest)"
    by simp
  define q where "q = dropWhile (\<lambda>c. c \<noteq> 34) (drop 7 (c # cs))"
  from m have "rest = tl q" and "q \<noteq> []"
    by (simp_all add: match_essid_def Let_def q_def split: if_splits)
  moreover have "length q \<le> length (c # cs)"
    unfolding q_def by (rule order_trans [OF length_dropWhile_le]) simp
  ultimately have "length rest < length (c # cs)"
    by (cases q) simp_all
  then show "(rest, c # cs) \<in> measure length"
    by simp
qed auto

text \<open>
  The loop over \<open>zip(addresses, essids)\<close>, with the set \<open>seen_essids\<close> and the list
  \<open>unique_networks\<close> it fills.
\<close>

fun unique_loop :: "pystr set \<Rightarrow> network list \<Rightarrow> (pystr \<times> pystr) list \<Rightarrow> network list" where
  "unique_loop seen_essids unique_networks [] = unique_networks"
| "unique_loop seen_essids unique_networks ((addr, name) # rest) =
     (if name \<notin> seen_essids \<and> name \<noteq> []
      then unique_loop (insert name seen_essids)
             (unique_networks @ [\<lparr>address = addr, essid = name\<rparr>]) rest
      else unique_loop seen_essids unique_networks rest)"

text \<open>The body of \<open>scan_networks\<close> from the two regular expressions to the \<open>return\<close>.\<close>

definition parse_scan :: "(nat \<Rightarrow> bool) \<Rightarrow> pystr \<Rightarrow> network list" where
  "parse_scan nd output =
     unique_loop {} [] (zip (findall_cell nd output) (findall_essid output))"

text \<open>
  \<open>subprocess.run(..., check=True)\<close> raises \<open>CalledProcessError\<close> when the process exits
  with a status other than 0.
\<close>

definition run_check :: "env \<Rightarrow> command \<Rightarrow> py_error + pystr" where
  "run_check e cmd =
     (case run e cmd of
        RunError err \<Rightarrow> Inl err
      | CompletedProcess rc out err \<Rightarrow> if rc \<noteq> 0 then Inl (CalledProcessError rc) else Inr out)"

text \<open>
  \<open>scan_networks\<close> catches \<open>CalledProcessError\<close> and nothing else: any other exception of
  \<open>subprocess.run\<close> goes to the caller.
\<close>

definition scan_networks :: "env \<Rightarrow> py_error + network list" where
  "scan_networks e =
     (case run_check e Iwlist_wlan0_scan of
        Inr output \<Rightarrow> Inr (parse_scan (nonascii_digit e) output)
      | Inl (CalledProcessError rc) \<Rightarrow> Inr []
      | Inl err \<Rightarrow> Inl err)"

subsection \<open>The exposed objects\<close>

definition GATT_SERVICE_IFACE :: pystr where
  "GATT_SERVICE_IFACE = lit ''org.bluez.GattService1''"

definition GATT_CHRC_IFACE :: pystr where
  "GATT_CHRC_IFACE = lit ''org.bluez.GattCharacteristic1''"

definition PATH_BASE :: pystr where
  "PATH_BASE = lit ''/org/bluez/example''"

text \<open>The D-Bus values that stand in a property map.\<close>

datatype variant =
    String pystr
  | Boolean bool
  | ObjectPath pystr
  | StringArray "pystr list"
  | ObjectPathArray "pystr list"
  | ByteArray "byte list"

type_synonym properties = "(pystr \<times> variant) list"

datatype event =
    Subprocess_run command
  | Send_notification pystr
  | PropertiesChanged pystr properties "pystr list"
  | Print_cannot_notify

text \<open>
  The attributes of the three classes. A \<open>MyService\<close> owns the two characteristics that
  its \<open>__init__\<close> appends, and nothing else calls \<open>add_characteristic\<close>: the record holds
  them as \<open>chrc\<close> (the \<open>MyCharacteristic\<close>) and \<open>notify_char\<close>, and the list
  \<open>self.characteristics\<close> is read off them, so that it shows the objects as they are now,
  as the list of references does in Python. The back-reference \<open>self.service\<close> of a
  characteristic is the service that holds it: a method that follows it takes the service.
\<close>

record notify_characteristic =
  notify_index :: nat
  notify_uuid :: pystr
  notify_flags :: "pystr list"
  notifying :: bool
  notify_value :: "byte list"
  notify_path :: pystr

record my_characteristic =
  chrc_index :: nat
  chrc_uuid :: pystr
  chrc_flags :: "pystr list"
  chrc_value :: "byte list"
  chrc_path :: pystr

record my_service =
  service_index :: nat
  service_path :: pystr
  service_uuid :: pystr
  primary :: bool
  chrc :: my_characteristic
  notify_char :: notify_characteristic

record application =
  app_path :: pystr
  services :: "my_service list"

datatype characteristic = My my_characteristic | Notify notify_characteristic

definition characteristics :: "my_service \<Rightarrow> characteristic list" where
  "characteristics svc = [My (chrc svc), Notify (notify_char svc)]"

subsubsection \<open>Construction\<close>

definition NotifyCharacteristic_init :: "nat \<Rightarrow> pystr \<Rightarrow> pystr \<Rightarrow> notify_characteristic" where
  "NotifyCharacteristic_init index uuid svc_path =
     \<lparr>notify_index = index, notify_uuid = uuid, notify_flags = [lit ''notify''],
      notifying = False, notify_value = [],
      notify_path = svc_path @ lit ''/char_notify'' @ str_nat index\<rparr>"

definition MyCharacteristic_init ::
  "nat \<Rightarrow> pystr \<Rightarrow> pystr list \<Rightarrow> pystr \<Rightarrow> my_characteristic" where
  "MyCharacteristic_init index uuid flags svc_path =
     \<lparr>chrc_index = index, chrc_uuid = uuid, chrc_flags = flags, chrc_value = [0],
      chrc_path = svc_path @ lit ''/char'' @ str_nat index\<rparr>"

definition MyService_init :: "nat \<Rightarrow> my_service" where
  "MyService_init index =
     (let path = PATH_BASE @ lit ''/service'' @ str_nat index in
      \<lparr>service_index = index, service_path = path,
       service_uuid = lit ''12345678-1234-5678-1234-56789abcdef1'',
       primary = True,
       chrc = MyCharacteristic_init 0 (lit ''12345678-1234-5678-1234-56789abcdef0'')
                [lit ''read'', lit ''write-without-response''] path,
       notify_char = NotifyCharacteristic_init 1 (lit ''12345678-1234-5678-1234-56789abcdef2'')
                path\<rparr>)"

definition add_service :: "my_service \<Rightarrow> application \<Rightarrow> application" where
  "add_service svc app = app\<lparr>services := services app @ [svc]\<rparr>"

definition Application_init :: application where
  "Application_init = add_service (MyService_init 0) \<lparr>app_path = PATH_BASE, services = []\<rparr>"

subsubsection \<open>Property maps and \<open>GetManagedObjects\<close>\<close>

definition MyCharacteristic_get_properties :: "my_service \<Rightarrow> (pystr \<times> properties) list" where
  "MyCharacteristic_get_properties svc =
     [(GATT_CHRC_IFACE,
       [(lit ''UUID'', String (chrc_uuid (chrc svc))),
        (lit ''Service'', ObjectPath (service_path svc)),
        (lit ''Flags'', StringArray (chrc_flags (chrc svc)))])]"

definition NotifyCharacteristic_get_properties :: "my_service \<Rightarrow> (pystr \<times> properties) list" where
  "NotifyCharacteristic_get_properties svc =
     [(GATT_CHRC_IFACE,
       [(lit ''UUID'', String (notify_uuid (notify_char svc))),
        (lit ''Service'', ObjectPath (service_path svc)),
        (lit ''Flags'', StringArray (notify_flags (notify_char svc))),
        (lit ''Value'', ByteArray (notify_value (notify_char svc)))])]"

fun get_path :: "characteristic \<Rightarrow> pystr" where
  "get_path (My c) = chrc_path c"
| "get_path (Notify n) = notify_path n"

text \<open>\<open>ch.get_properties()\<close> for a characteristic \<open>ch\<close> of the service \<open>svc\<close>.\<close>

fun get_properties :: "my_service \<Rightarrow> characteristic \<Rightarrow> (pystr \<times> properties) list" where
  "get_properties svc (My c) = MyCharacteristic_get_properties svc"
| "get_properties svc (Notify n) = NotifyCharacteristic_get_properties svc"

definition MyService_get_properties :: "my_service \<Rightarrow> (pystr \<times> properties) list" where
  "MyService_get_properties svc =
     [(GATT_SERVICE_IFACE,
       [(lit ''UUID'', String (service_uuid svc)),
        (lit ''Primary'', Boolean (primary svc)),
        (lit ''Characteristics'', ObjectPathArray (map get_path (characteristics svc)))])]"

definition GetManagedObjects ::
  "application \<Rightarrow> (pystr \<times> (pystr \<times> properties) list) list" where
  "GetManagedObjects app =
     foldl (\<lambda>mapped service.
              foldl (\<lambda>mapped ch. AList.update (get_path ch) (get_properties service ch) mapped)
                (AList.update (service_path service) (MyService_get_properties service) mapped)
                (characteristics service))
       [] (services app)"

subsubsection \<open>\<open>NotifyCharacteristic\<close>\<close>

definition StartNotify :: "notify_characteristic \<Rightarrow> notify_characteristic" where
  "StartNotify n = n\<lparr>notifying := True\<rparr>"

definition StopNotify :: "notify_characteristic \<Rightarrow> notify_characteristic" where
  "StopNotify n = n\<lparr>notifying := False\<rparr>"

text \<open>
  \<open>send_notification(message)\<close>: the result for the caller, the characteristic afterwards
  and what the call did.
\<close>

definition send_notification ::
  "pystr \<Rightarrow> notify_characteristic \<Rightarrow> (py_error + unit) \<times> notify_characteristic \<times> event list" where
  "send_notification message n =
     (if \<not> notifying n then (Inr (), n, [Print_cannot_notify])
      else
        (case utf8_encode message of
           Inl err \<Rightarrow> (Inl err, n, [])
         | Inr bs \<Rightarrow>
             (Inr (), n\<lparr>notify_value := bs\<rparr>,
              [PropertiesChanged GATT_CHRC_IFACE [(lit ''Value'', ByteArray bs)] []])))"

text \<open>A sequence of subscription calls from the host.\<close>

datatype notify_call = Start | Stop

fun notify_step :: "notify_characteristic \<Rightarrow> notify_call \<Rightarrow> notify_characteristic" where
  "notify_step n Start = StartNotify n"
| "notify_step n Stop = StopNotify n"

definition notify_calls :: "notify_call list \<Rightarrow> notify_characteristic \<Rightarrow> notify_characteristic" where
  "notify_calls cs n = foldl notify_step n cs"

subsubsection \<open>\<open>MyCharacteristic\<close>\<close>

text \<open>\<open>self.service.notify_char.send_notification(message)\<close>, as \<open>WriteValue\<close> calls it.\<close>

definition notify ::
  "pystr \<Rightarrow> my_service \<Rightarrow> (py_error + unit) \<times> my_service \<times> event list" where
  "notify message svc =
     (case send_notification message (notify_char svc) of
        (r, n, evs) \<Rightarrow> (r, svc\<lparr>notify_char := n\<rparr>, Send_notification message # evs))"

text \<open>
  The inner \<open>try\<close> block of the \<open>SCAN_WIFI\<close> branch (lines 290 to 302), before its
  \<open>except Exception\<close>. The call of \<open>scan_networks\<close> starts the scan, which the trace
  records first; an empty list of networks raises \<open>Exception('Failed to scan networks')\<close>.
\<close>

definition scan_wifi ::
  "env \<Rightarrow> my_service \<Rightarrow> (py_error + unit) \<times> my_service \<times> event list" where
  "scan_wifi e svc =
     (case scan_networks e of
        Inl err \<Rightarrow> (Inl err, svc, [Subprocess_run Iwlist_wlan0_scan])
      | Inr networks \<Rightarrow>
          if networks = []
          then (Inl (Exception (lit ''Failed to scan networks'')), svc,
                [Subprocess_run Iwlist_wlan0_scan])
          else
            (case notify (json_dumps e networks) svc of
               (r, svc', evs) \<Rightarrow> (r, svc', Subprocess_run Iwlist_wlan0_scan # evs)))"

text \<open>
  The credential branch from the first \<open>subprocess.run\<close> to the end of the \<open>try\<close> block
  (lines 321 to 344). The two markers start with U+2705 and U+274C.
\<close>

definition connected_message :: pystr where
  "connected_message = 9989 # lit '' Connected to Wi-Fi''"

definition failed_message :: pystr where
  "failed_message = 10060 # lit '' Failed to connect''"

definition scan_status :: "process \<Rightarrow> py_error + pystr" where
  "scan_status p =
     (case p of
        RunError err \<Rightarrow> Inl err
      | CompletedProcess rc out err \<Rightarrow>
          Inr (if rc = 0
               then (if strip out = [] then lit ''No ESSIDs found'' else strip out)
               else lit ''Error: '' @ strip err))"

definition connect_wifi ::
  "env \<Rightarrow> json \<Rightarrow> json \<Rightarrow> my_service \<Rightarrow> (py_error + unit) \<times> my_service \<times> event list" where
  "connect_wifi e ssid password svc =
     (case scan_status (run e Iwlist_scan_grep_ESSID) of
        Inl err \<Rightarrow> (Inl err, svc, [Subprocess_run Iwlist_scan_grep_ESSID])
      | Inr output \<Rightarrow>
          (case notify output svc of
             (Inl err, svc1, evs1) \<Rightarrow>
               (Inl err, svc1, Subprocess_run Iwlist_scan_grep_ESSID # evs1)
           | (Inr u, svc1, evs1) \<Rightarrow>
               (case run e (Nmcli_wifi_connect ssid password) of
                  RunError err \<Rightarrow>
                    (Inl err, svc1,
                     Subprocess_run Iwlist_scan_grep_ESSID # evs1 @
                     [Subprocess_run (Nmcli_wifi_connect ssid password)])
                | CompletedProcess rc out err \<Rightarrow>
                    (case notify (if rc = 0 then connected_message else failed_message) svc1 of
                       (r, svc2, evs2) \<Rightarrow>
                         (r, svc2,
                          Subprocess_run Iwlist_scan_grep_ESSID # evs1 @
                          Subprocess_run (Nmcli_wifi_connect ssid password) # evs2)))))"

text \<open>
  How the \<open>try\<close> block of \<open>WriteValue\<close> ends: at its last statement, at a \<open>return\<close>, or
  with an exception.
\<close>

datatype completion = Completed | Returned | Raised py_error

definition try_block ::
  "env \<Rightarrow> byte list \<Rightarrow> my_service \<Rightarrow> completion \<times> my_service \<times> event list" where
  "try_block e val svc =
     (case utf8_decode val of
        Inl err \<Rightarrow> (Raised err, svc, [])
      | Inr text \<Rightarrow>
          if text = lit ''SCAN_WIFI''
          then (case scan_wifi e svc of (r, svc', evs) \<Rightarrow> (Returned, svc', evs))
          else
            (case json_loads e text of
               Inl err \<Rightarrow> (Raised err, svc, [])
             | Inr data \<Rightarrow>
                 (case dict_get data (lit ''ssid'') of
                    Inl err \<Rightarrow> (Raised err, svc, [])
                  | Inr ssid \<Rightarrow>
                      (case dict_get data (lit ''password'') of
                         Inl err \<Rightarrow> (Raised err, svc, [])
                       | Inr password \<Rightarrow>
                           if \<not> truthy ssid \<or> \<not> truthy password then (Returned, svc, [])
                           else
                             (case connect_wifi e ssid password svc of
                                (Inl err, svc', evs) \<Rightarrow> (Raised err, svc', evs)
                              | (Inr u, svc', evs) \<Rightarrow> (Completed, svc', evs))))))"

text \<open>
  \<open>WriteValue(value, options)\<close>. The two handlers \<open>except json.JSONDecodeError\<close> and
  \<open>except Exception\<close> print and go on to the statement after the \<open>try\<close>, which stores
  the value; a \<open>return\<close> inside the \<open>try\<close> block leaves the method before that statement.
\<close>

definition WriteValue ::
  "env \<Rightarrow> byte list \<Rightarrow> properties \<Rightarrow> my_service \<Rightarrow> (py_error + unit) \<times> my_service \<times> event list" where
  "WriteValue e val options svc =
     (case try_block e val svc of
        (Returned, svc', evs) \<Rightarrow> (Inr (), svc', evs)
      | (Completed, svc', evs) \<Rightarrow> (Inr (), svc'\<lparr>chrc := (chrc svc')\<lparr>chrc_value := val\<rparr>\<rparr>, evs)
      | (Raised err, svc', evs) \<Rightarrow> (Inr (), svc'\<lparr>chrc := (chrc svc')\<lparr>chrc_value := val\<rparr>\<rparr>, evs))"

definition ReadValue :: "properties \<Rightarrow> my_service \<Rightarrow> byte list" where
  "ReadValue options svc = chrc_value (chrc svc)"

text \<open>\<open>d[key]\<close> raises \<open>KeyError\<close> on a missing key.\<close>

definition subscript :: "(pystr \<times> 'v) list \<Rightarrow> pystr \<Rightarrow> py_error + 'v" where
  "subscript d k = (case map_of d k of None \<Rightarrow> Inl (KeyError k) | Some v \<Rightarrow> Inr v)"

definition Get :: "pystr \<Rightarrow> pystr \<Rightarrow> my_service \<Rightarrow> py_error + variant" where
  "Get interface prop svc =
     (case subscript (MyCharacteristic_get_properties svc) interface of
        Inl err \<Rightarrow> Inl err
      | Inr ps \<Rightarrow> subscript ps prop)"

definition GetAll :: "pystr \<Rightarrow> my_service \<Rightarrow> py_error + properties" where
  "GetAll interface svc =
     (if interface \<noteq> GATT_CHRC_IFACE then Inl (DBusException (lit ''Invalid interface''))
      else subscript (MyCharacteristic_get_properties svc) interface)"

subsection \<open>Reading a trace\<close>

text \<open>
  The messages handed to \<open>send_notification\<close>, the signals emitted and the commands
  started, each in the order of the trace.
\<close>

fun pushed :: "event list \<Rightarrow> pystr list" where
  "pushed [] = []"
| "pushed (Send_notification m # evs) = m # pushed evs"
| "pushed (ev # evs) = pushed evs"

fun signals :: "event list \<Rightarrow> event list" where
  "signals [] = []"
| "signals (PropertiesChanged i c iv # evs) = PropertiesChanged i c iv # signals evs"
| "signals (ev # evs) = signals evs"

fun started :: "event list \<Rightarrow> command list" where
  "started [] = []"
| "started (Subprocess_run c # evs) = c # started evs"
| "started (ev # evs) = started evs"

text \<open>The bytes of an ASCII text, as a client writes them.\<close>

definition wire :: "pystr \<Rightarrow> byte list" where
  "wire s = map of_nat s"

subsection \<open>Example inputs\<close>

text \<open>A text between double quotes (34).\<close>

definition quoted :: "string \<Rightarrow> pystr" where
  "quoted s = 34 # lit s @ [34]"

text \<open>The texts \<open>{"ssid":"x"}\<close> and \<open>{"ssid":"Home","password":"secret"}\<close>.\<close>

definition ssid_only_text :: pystr where
  "ssid_only_text = lit ''{'' @ quoted ''ssid'' @ lit '':'' @ quoted ''x'' @ lit ''}''"

definition credentials_text :: pystr where
  "credentials_text =
     lit ''{'' @ quoted ''ssid'' @ lit '':'' @ quoted ''Home'' @ lit '','' @
     quoted ''password'' @ lit '':'' @ quoted ''secret'' @ lit ''}''"

text \<open>
  An environment for the examples: the ESSID scan finds one network, \<open>nmcli\<close> exits with
  the given return code, \<open>json.loads\<close> knows the two objects above and refuses every
  other text, \<open>json.dumps\<close> writes strings that need no escape. The texts of the examples
  are ASCII, so the digits beyond ASCII play no role.
\<close>

definition dumps_network :: "network \<Rightarrow> pystr" where
  "dumps_network n =
     lit ''{'' @ quoted ''address'' @ lit '': '' @ 34 # address n @ 34 # lit '', '' @
     quoted ''essid'' @ lit '': '' @ 34 # essid n @ 34 # lit ''}''"

fun dumps_networks :: "network list \<Rightarrow> pystr" where
  "dumps_networks [] = []"
| "dumps_networks [n] = dumps_network n"
| "dumps_networks (n # ns) = dumps_network n @ lit '', '' @ dumps_networks ns"

definition example_env :: "int \<Rightarrow> env" where
  "example_env rc =
     \<lparr>run = (\<lambda>cmd. case cmd of
                Iwlist_wlan0_scan \<Rightarrow> CompletedProcess 0 [] []
              | Iwlist_scan_grep_ESSID \<Rightarrow>
                  CompletedProcess 0 (lit ''    ESSID:'' @ quoted ''Home'' @ [10]) []
              | Nmcli_wifi_connect ssid password \<Rightarrow> CompletedProcess rc [] []),
      json_loads = (\<lambda>text.
                if text = ssid_only_text then Inr (JDict [(lit ''ssid'', JStr (lit ''x''))])
                else if text = credentials_text
                then Inr (JDict [(lit ''ssid'', JStr (lit ''Home'')),
                                 (lit ''password'', JStr (lit ''secret''))])
                else Inl JSONDecodeError),
      json_dumps = (\<lambda>ns. lit ''['' @ dumps_networks ns @ lit '']''),
      nonascii_digit = (\<lambda>c. False)\<rparr>"


text \<open>
  Scan outputs for the examples. A block is the line of a cell with its address and the
  line of its ESSID, as \<open>iwlist\<close> prints them; \<open>cell_line\<close> is the first line alone.
\<close>

definition cell_line :: "string \<Rightarrow> string \<Rightarrow> pystr" where
  "cell_line n a = lit ''  Cell '' @ lit n @ lit '' - Address: '' @ lit a @ [10]"

definition cell_block :: "string \<Rightarrow> string \<Rightarrow> string \<Rightarrow> pystr" where
  "cell_block n a name = cell_line n a @ lit ''    ESSID:'' @ quoted name @ [10]"

text \<open>Two cells with the same ESSID; one cell with an empty ESSID; a cell without ESSID
  line followed by a complete one.\<close>

definition same_essid_scan :: pystr where
  "same_essid_scan =
     cell_block ''01'' ''AA:BB:CC:DD:EE:01'' ''Home'' @
     cell_block ''02'' ''AA:BB:CC:DD:EE:02'' ''Home''"

definition empty_essid_scan :: pystr where
  "empty_essid_scan = cell_block ''01'' ''AA:BB:CC:DD:EE:01'' ''''"

definition shifted_scan :: pystr where
  "shifted_scan =
     cell_line ''01'' ''AA:BB:CC:DD:EE:01'' @
     cell_block ''02'' ''AA:BB:CC:DD:EE:02'' ''Net2''"

text \<open>An environment whose scan tool exits with \<open>rc\<close> after printing \<open>out\<close>.\<close>

definition scan_env :: "int \<Rightarrow> pystr \<Rightarrow> env" where
  "scan_env rc out = (example_env 0)\<lparr>run := (\<lambda>cmd. CompletedProcess rc out [])\<rparr>"

text \<open>
  An environment in which no command can be started: \<open>subprocess.run\<close> raises
  \<open>FileNotFoundError\<close>.
\<close>

definition launch_error_env :: env where
  "launch_error_env =
     (example_env 0)\<lparr>run := (\<lambda>cmd. RunError (OtherError (lit ''FileNotFoundError'')))\<rparr>"

subsection \<open>Notions for the statements\<close>

text \<open>The pairs that the loop of \<open>scan_networks\<close> runs over, and a record as a pair.\<close>

definition scan_pairs :: "(nat \<Rightarrow> bool) \<Rightarrow> pystr \<Rightarrow> (pystr \<times> pystr) list" where
  "scan_pairs nd output = zip (findall_cell nd output) (findall_essid output)"

definition pair_of :: "network \<Rightarrow> pystr \<times> pystr" where
  "pair_of n = (address n, essid n)"

text \<open>
  The objects below the application root, with the property map of each as it is now:
  a service, then its characteristics, in the order of the lists.
\<close>

definition service_entries :: "my_service \<Rightarrow> (pystr \<times> (pystr \<times> properties) list) list" where
  "service_entries svc =
     (service_path svc, MyService_get_properties svc) #
     map (\<lambda>ch. (get_path ch, get_properties svc ch)) (characteristics svc)"

definition object_entries :: "application \<Rightarrow> (pystr \<times> (pystr \<times> properties) list) list" where
  "object_entries app = concat (map service_entries (services app))"

definition object_paths :: "application \<Rightarrow> pystr list" where
  "object_paths app = map fst (object_entries app)"

text \<open>The application after a client has written \<open>not json\<close>.\<close>

definition written_service :: my_service where
  "written_service =
     fst (snd (WriteValue (example_env 0) (wire (lit ''not json'')) [] (MyService_init 0)))"

definition written_application :: application where
  "written_application = Application_init\<lparr>services := [written_service]\<rparr>"

text \<open>
  The states of the application: the one that \<open>Application.__init__\<close> builds, and what
  the calls of the host make of it (a write to the characteristic, a subscription, its
  end).
\<close>

inductive reachable :: "application \<Rightarrow> bool" where
  reach_init: "reachable Application_init"
| reach_write: "reachable app \<Longrightarrow> services app = [svc] \<Longrightarrow>
          WriteValue e val opts svc = (r, svc', evs) \<Longrightarrow>
          reachable (app\<lparr>services := [svc']\<rparr>)"
| reach_start: "reachable app \<Longrightarrow> services app = [svc] \<Longrightarrow>
          reachable (app\<lparr>services := [svc\<lparr>notify_char := StartNotify (notify_char svc)\<rparr>]\<rparr>)"
| reach_stop: "reachable app \<Longrightarrow> services app = [svc] \<Longrightarrow>
         reachable (app\<lparr>services := [svc\<lparr>notify_char := StopNotify (notify_char svc)\<rparr>]\<rparr>)"

section \<open>Properties\<close>

subsection \<open>Auxiliary facts\<close>

lemma lit_eq_iff: "lit a = lit b \<longleftrightarrow> a = b"
  unfolding lit_def using inj_of_char [where ?'a = nat] by (simp add: inj_map_eq_map)


lemma signals_append: "signals (xs @ ys) = signals xs @ signals ys"
  by (induction xs rule: signals.induct) simp_all


subsection \<open>The subscription state machine\<close>

lemma notify_calls_snoc: "notify_calls (cs @ [c]) n = notify_step (notify_calls cs n) c"
  by (simp add: notify_calls_def)

lemma notify_step_absorbs: "notify_step (notify_step n c) d = notify_step n d"
  by (cases c; cases d) (simp_all add: StartNotify_def StopNotify_def)

lemma notify_step_notify_calls: "notify_step (notify_calls cs n) d = notify_step n d"
proof (induction cs rule: rev_induct)
  case Nil
  show ?case by (simp add: notify_calls_def)
next
  case (snoc c cs)
  then show ?case by (simp add: notify_calls_snoc notify_step_absorbs)
qed

text \<open>
  Claim C9. \<open>StartNotify\<close> and \<open>StopNotify\<close> are idempotent, and after any sequence of
  such calls that is not empty, from any state of the characteristic, the characteristic
  is what the last call alone makes of the initial one: subscribed if the last call was
  \<open>StartNotify\<close>, unsubscribed if it was \<open>StopNotify\<close>.
\<close>

theorem notify_calls_last:
  "StartNotify (StartNotify n) = StartNotify n \<and>
   StopNotify (StopNotify n) = StopNotify n \<and>
   (cs \<noteq> [] \<longrightarrow>
      notify_calls cs n = notify_step n (last cs) \<and>
      notifying (notify_calls cs n) = (last cs = Start))"
proof (intro conjI impI)
  show "StartNotify (StartNotify n) = StartNotify n"
    by (simp add: StartNotify_def)
  show "StopNotify (StopNotify n) = StopNotify n"
    by (simp add: StopNotify_def)
next
  assume "cs \<noteq> []"
  then obtain bs c where cs: "cs = bs @ [c]"
    by (cases cs rule: rev_cases) auto
  show eq: "notify_calls cs n = notify_step n (last cs)"
    by (simp add: cs notify_calls_snoc notify_step_notify_calls)
  show "notifying (notify_calls cs n) = (last cs = Start)"
    unfolding eq by (cases "last cs") (simp_all add: StartNotify_def StopNotify_def)
qed

theorem notify_calls_last_witness:
  "[Start, Stop, Stop, Start] \<noteq> [] \<and>
   notify_calls [Start, Stop, Stop, Start] (NotifyCharacteristic_init 1 [] []) =
     StartNotify (NotifyCharacteristic_init 1 [] []) \<and>
   notifying (notify_calls [Stop, Start, Stop] (StartNotify (NotifyCharacteristic_init 1 [] []))) = False"
  using notify_calls_last [of "NotifyCharacteristic_init 1 [] []" "[Start, Stop, Stop, Start]"]
    notify_calls_last [of "StartNotify (NotifyCharacteristic_init 1 [] [])" "[Stop, Start, Stop]"]
  by (simp add: StartNotify_def StopNotify_def)

subsection \<open>Pushing a notification\<close>

text \<open>
  Claim C3. For every message and every state of the \<open>NotifyCharacteristic\<close>: when it is
  subscribed, \<open>send_notification\<close> replaces the current value by exactly the bytes of the
  message and emits exactly one \<open>PropertiesChanged\<close> signal, for the property \<open>Value\<close>
  alone and with no invalidated property, whatever the value was before (so also when
  the bytes are the ones it already held); when it is not subscribed, the characteristic
  stays as it was, the call prints its warning and returns without error. Hence a call
  that changes the current value was made while subscribed.
\<close>

theorem send_notification_effect:
  "(notifying n \<and> utf8_encode message = Inr bs \<longrightarrow>
      send_notification message n =
        (Inr (), n\<lparr>notify_value := bs\<rparr>,
         [PropertiesChanged GATT_CHRC_IFACE [(lit ''Value'', ByteArray bs)] []])) \<and>
   (\<not> notifying n \<longrightarrow> send_notification message n = (Inr (), n, [Print_cannot_notify])) \<and>
   (notify_value (fst (snd (send_notification message n))) \<noteq> notify_value n \<longrightarrow> notifying n)"
  by (auto simp: send_notification_def split: sum.splits)

theorem send_notification_effect_witness:
  "notifying (StartNotify (NotifyCharacteristic_init 1 [] [])) \<and>
   utf8_encode (lit ''ok'') = Inr [111, 107] \<and>
   send_notification (lit ''ok'') (StartNotify (NotifyCharacteristic_init 1 [] [])) =
     (Inr (), (StartNotify (NotifyCharacteristic_init 1 [] []))\<lparr>notify_value := [111, 107]\<rparr>,
      [PropertiesChanged GATT_CHRC_IFACE [(lit ''Value'', ByteArray [111, 107])] []]) \<and>
   send_notification (lit ''ok'')
       ((StartNotify (NotifyCharacteristic_init 1 [] []))\<lparr>notify_value := [111, 107]\<rparr>) =
     (Inr (), (StartNotify (NotifyCharacteristic_init 1 [] []))\<lparr>notify_value := [111, 107]\<rparr>,
      [PropertiesChanged GATT_CHRC_IFACE [(lit ''Value'', ByteArray [111, 107])] []]) \<and>
   \<not> notifying (NotifyCharacteristic_init 1 [] []) \<and>
   send_notification (lit ''ok'') (NotifyCharacteristic_init 1 [] []) =
     (Inr (), NotifyCharacteristic_init 1 [] [], [Print_cannot_notify])"
proof -
  have sub: "notifying (StartNotify (NotifyCharacteristic_init 1 [] []))"
    by (simp add: StartNotify_def)
  have sub': "notifying ((StartNotify (NotifyCharacteristic_init 1 [] []))\<lparr>notify_value := [111, 107]\<rparr>)"
    by (simp add: StartNotify_def)
  have enc: "utf8_encode (lit ''ok'') = Inr [111, 107]"
    by (simp add: utf8_encode_def utf8_enc1_def lit_def)
  have unsub: "\<not> notifying (NotifyCharacteristic_init 1 [] [])"
    by (simp add: NotifyCharacteristic_init_def)
  show ?thesis
    using sub sub' enc unsub
      send_notification_effect [of "StartNotify (NotifyCharacteristic_init 1 [] [])" "lit ''ok''" "[111, 107]"]
      send_notification_effect [of "(StartNotify (NotifyCharacteristic_init 1 [] []))\<lparr>notify_value := [111, 107]\<rparr>" "lit ''ok''" "[111, 107]"]
      send_notification_effect [of "NotifyCharacteristic_init 1 [] []" "lit ''ok''" "[111, 107]"]
    by simp
qed

subsection \<open>The property accessors of \<open>MyCharacteristic\<close>\<close>

text \<open>
  Claim C8. For every interface name other than \<open>org.bluez.GattCharacteristic1\<close>, both
  \<open>Get\<close> and \<open>GetAll\<close> fail: \<open>GetAll\<close> with the D-Bus exception \<open>Invalid interface\<close>,
  \<open>Get\<close> with the \<open>KeyError\<close> of the interface name, which the property map does not
  hold. For the interface of the characteristic, \<open>GetAll\<close> returns the property map of
  that interface and \<open>Get\<close> looks the property up in it. Neither changes any state.
\<close>

theorem Get_GetAll_interface:
  "(interface \<noteq> GATT_CHRC_IFACE \<longrightarrow>
      Get interface prop svc = Inl (KeyError interface) \<and>
      GetAll interface svc = Inl (DBusException (lit ''Invalid interface''))) \<and>
   GetAll GATT_CHRC_IFACE svc =
     Inr [(lit ''UUID'', String (chrc_uuid (chrc svc))),
          (lit ''Service'', ObjectPath (service_path svc)),
          (lit ''Flags'', StringArray (chrc_flags (chrc svc)))] \<and>
   Get GATT_CHRC_IFACE prop svc =
     (case GetAll GATT_CHRC_IFACE svc of Inl err \<Rightarrow> Inl err | Inr ps \<Rightarrow> subscript ps prop)"
  by (simp add: Get_def GetAll_def subscript_def MyCharacteristic_get_properties_def)

theorem Get_GetAll_interface_witness:
  "lit ''org.bluez.GattService1'' \<noteq> GATT_CHRC_IFACE \<and>
   Get (lit ''org.bluez.GattService1'') (lit ''UUID'') (MyService_init 0) =
     Inl (KeyError (lit ''org.bluez.GattService1'')) \<and>
   GetAll (lit ''org.bluez.GattService1'') (MyService_init 0) =
     Inl (DBusException (lit ''Invalid interface'')) \<and>
   Get GATT_CHRC_IFACE (lit ''UUID'') (MyService_init 0) =
     Inr (String (lit ''12345678-1234-5678-1234-56789abcdef0''))"
proof -
  have ne: "lit ''org.bluez.GattService1'' \<noteq> GATT_CHRC_IFACE"
    by (simp add: GATT_CHRC_IFACE_def lit_eq_iff)
  have uuid: "chrc_uuid (chrc (MyService_init 0)) = lit ''12345678-1234-5678-1234-56789abcdef0''"
    by (simp add: MyService_init_def MyCharacteristic_init_def Let_def)
  show ?thesis
    using ne uuid
      Get_GetAll_interface [of "lit ''org.bluez.GattService1''" "lit ''UUID''" "MyService_init 0"]
    by (simp add: subscript_def)
qed

text \<open>
  Claim C5, as the code has it. The property map of \<open>MyCharacteristic\<close> holds the one
  interface \<open>org.bluez.GattCharacteristic1\<close> with exactly \<open>UUID\<close>, \<open>Service\<close> and \<open>Flags\<close>,
  whatever the flags are: it never holds a \<open>Value\<close> entry, and asking for one fails. The
  last written bytes are read with \<open>ReadValue\<close> only.
\<close>

theorem get_properties_without_Value:
  "map fst (MyCharacteristic_get_properties svc) = [GATT_CHRC_IFACE] \<and>
   map (map fst \<circ> snd) (MyCharacteristic_get_properties svc) =
     [[lit ''UUID'', lit ''Service'', lit ''Flags'']] \<and>
   Get GATT_CHRC_IFACE (lit ''Value'') svc = Inl (KeyError (lit ''Value''))"
  by (simp add: MyCharacteristic_get_properties_def Get_def subscript_def lit_eq_iff)

text \<open>
  The characteristic that \<open>MyService\<close> creates is flagged \<open>read\<close> and holds the value
  \<open>[0]\<close>, and its property map has no \<open>Value\<close>.
\<close>

theorem readable_without_Value_counterexample:
  "lit ''read'' \<in> set (chrc_flags (chrc (MyService_init 0))) \<and>
   ReadValue [] (MyService_init 0) = [0] \<and>
   GetAll GATT_CHRC_IFACE (MyService_init 0) =
     Inr [(lit ''UUID'', String (lit ''12345678-1234-5678-1234-56789abcdef0'')),
          (lit ''Service'', ObjectPath (lit ''/org/bluez/example/service0'')),
          (lit ''Flags'', StringArray [lit ''read'', lit ''write-without-response''])] \<and>
   Get GATT_CHRC_IFACE (lit ''Value'') (MyService_init 0) = Inl (KeyError (lit ''Value''))"
  by (simp add: MyCharacteristic_get_properties_def Get_def GetAll_def subscript_def lit_eq_iff
      MyService_init_def MyCharacteristic_init_def Let_def ReadValue_def PATH_BASE_def lit_def)

subsection \<open>Writing to \<open>MyCharacteristic\<close>\<close>

lemma send_notification_events:
  "send_notification m n = (r, n', evs) \<Longrightarrow> pushed evs = [] \<and> started evs = []"
  by (auto simp: send_notification_def split: if_splits sum.splits)

lemma notify_events:
  "notify m svc = (r, svc', evs) \<Longrightarrow>
     pushed evs = [m] \<and> started evs = [] \<and> chrc svc' = chrc svc"
  by (auto simp: notify_def split: prod.splits dest: send_notification_events)

lemma WriteValue_succeeds: "fst (WriteValue e val opts svc) = Inr ()"
  by (simp add: WriteValue_def split: prod.splits completion.splits)

lemma scan_wifi_chrc: "scan_wifi e svc = (r, svc', evs) \<Longrightarrow> chrc svc' = chrc svc"
  by (auto simp: scan_wifi_def split: sum.splits if_splits prod.splits dest: notify_events)

lemma connect_wifi_chrc: "connect_wifi e s p svc = (r, svc', evs) \<Longrightarrow> chrc svc' = chrc svc"
  by (auto simp: connect_wifi_def split: sum.splits if_splits prod.splits process.splits
      dest!: notify_events)

lemma try_block_chrc: "try_block e val svc = (c, svc', evs) \<Longrightarrow> chrc svc' = chrc svc"
  by (auto simp: try_block_def split: sum.splits if_splits prod.splits
      dest: scan_wifi_chrc connect_wifi_chrc)

text \<open>
  What \<open>ReadValue\<close> returns after a write: the written bytes, unless the \<open>try\<close> block
  ended at one of its two \<open>return\<close> statements, which leaves the old value in place.
\<close>

lemma WriteValue_value:
  "ReadValue opts' (fst (snd (WriteValue e val opts svc))) =
     (if fst (try_block e val svc) = Returned then ReadValue opts' svc else val)"
  by (auto simp: WriteValue_def ReadValue_def split: prod.splits completion.splits
      dest: try_block_chrc)

lemma utf8_decode_SCAN_WIFI: "utf8_decode (wire (lit ''SCAN_WIFI'')) = Inr (lit ''SCAN_WIFI'')"
  by (simp add: utf8_decode_def lit_def wire_def)

lemma try_block_SCAN_WIFI: "fst (try_block e (wire (lit ''SCAN_WIFI'')) svc) = Returned"
  by (simp add: try_block_def utf8_decode_SCAN_WIFI split: prod.splits)

text \<open>
  The writes that leave the old value in place are exactly the two that end at a
  \<open>return\<close>: the text \<open>SCAN_WIFI\<close>, and a JSON object whose \<open>ssid\<close> or \<open>password\<close> is
  missing or false in a condition. Every other write stores its bytes.
\<close>

lemma try_block_Returned_iff:
  "fst (try_block e val svc) = Returned \<longleftrightarrow>
     (\<exists>text. utf8_decode val = Inr text \<and>
        (text = lit ''SCAN_WIFI'' \<or>
         (\<exists>data ssid password.
            json_loads e text = Inr data \<and>
            dict_get data (lit ''ssid'') = Inr ssid \<and>
            dict_get data (lit ''password'') = Inr password \<and>
            \<not> (truthy ssid \<and> truthy password))))"
  by (auto simp: try_block_def split: sum.splits prod.splits)

text \<open>
  Claim C1, at the input \<open>SCAN_WIFI\<close>. The write call succeeds, but the \<open>return\<close> that
  ends the scan branch leaves \<open>WriteValue\<close> before the statement that stores the value:
  \<open>ReadValue\<close> right after the write returns what it returned before, for every
  environment and every state. On the service as \<open>MyService\<close> creates it, that is the
  initial byte \<open>[0]\<close> and not the nine bytes written.
\<close>

theorem WriteValue_SCAN_WIFI_not_stored:
  "fst (WriteValue e (wire (lit ''SCAN_WIFI'')) opts svc) = Inr () \<and>
   ReadValue opts' (fst (snd (WriteValue e (wire (lit ''SCAN_WIFI'')) opts svc))) = ReadValue opts' svc \<and>
   ReadValue opts' (fst (snd (WriteValue e (wire (lit ''SCAN_WIFI'')) opts (MyService_init 0)))) = [0] \<and>
   wire (lit ''SCAN_WIFI'') \<noteq> [0]"
proof -
  have "ReadValue opts' (MyService_init 0) = [0]"
    by (simp add: ReadValue_def MyService_init_def MyCharacteristic_init_def Let_def)
  moreover have "wire (lit ''SCAN_WIFI'') \<noteq> [0]"
    by (simp add: wire_def lit_def)
  ultimately show ?thesis
    by (simp add: WriteValue_succeeds WriteValue_value try_block_SCAN_WIFI)
qed









lemma utf8_decode_ssid_only: "utf8_decode (wire ssid_only_text) = Inr ssid_only_text"
  by (simp add: utf8_decode_def wire_def ssid_only_text_def quoted_def lit_def)

lemma example_texts_distinct:
  "credentials_text \<noteq> lit ''SCAN_WIFI''" "ssid_only_text \<noteq> lit ''SCAN_WIFI''"
  "credentials_text \<noteq> ssid_only_text" "lit ''not json'' \<noteq> lit ''SCAN_WIFI''"
  "lit ''not json'' \<noteq> ssid_only_text" "lit ''not json'' \<noteq> credentials_text"
  by (simp_all add: credentials_text_def ssid_only_text_def quoted_def lit_def)

lemma lit_Nil_iff: "lit s = [] \<longleftrightarrow> s = []"
  by (simp add: lit_def)





text \<open>
  Claim C2, on the three inputs. Bytes that are not valid UTF-8, and the text \<open>not json\<close>
  where \<open>json.loads\<close> refuses it, start no process and call \<open>send_notification\<close> not
  once, and the bytes written become the last-written value. The text \<open>{"ssid":"x"}\<close>,
  where \<open>json.loads\<close> gives the object with the one key \<open>ssid\<close>, starts no process and
  pushes nothing either, but the \<open>return\<close> after the missing-password message leaves
  \<open>WriteValue\<close> before the statement that stores the value: the service is exactly as
  it was, its last-written value included.
\<close>

theorem WriteValue_rejected_inputs:
  "(utf8_decode val = Inl UnicodeDecodeError \<longrightarrow>
      WriteValue e val opts svc = (Inr (), svc\<lparr>chrc := (chrc svc)\<lparr>chrc_value := val\<rparr>\<rparr>, [])) \<and>
   (json_loads e (lit ''not json'') = Inl JSONDecodeError \<longrightarrow>
      WriteValue e (wire (lit ''not json'')) opts svc =
        (Inr (), svc\<lparr>chrc := (chrc svc)\<lparr>chrc_value := wire (lit ''not json'')\<rparr>\<rparr>, [])) \<and>
   (json_loads e ssid_only_text = Inr (JDict [(lit ''ssid'', JStr (lit ''x''))]) \<longrightarrow>
      WriteValue e (wire ssid_only_text) opts svc = (Inr (), svc, []))"
proof (intro conjI impI)
  assume "utf8_decode val = Inl UnicodeDecodeError"
  then show "WriteValue e val opts svc =
      (Inr (), svc\<lparr>chrc := (chrc svc)\<lparr>chrc_value := val\<rparr>\<rparr>, [])"
    by (simp add: WriteValue_def try_block_def)
next
  have "utf8_decode (wire (lit ''not json'')) = Inr (lit ''not json'')"
    by (simp add: utf8_decode_def wire_def lit_def)
  moreover assume "json_loads e (lit ''not json'') = Inl JSONDecodeError"
  ultimately show "WriteValue e (wire (lit ''not json'')) opts svc =
      (Inr (), svc\<lparr>chrc := (chrc svc)\<lparr>chrc_value := wire (lit ''not json'')\<rparr>\<rparr>, [])"
    by (simp add: WriteValue_def try_block_def example_texts_distinct)
next
  assume "json_loads e ssid_only_text = Inr (JDict [(lit ''ssid'', JStr (lit ''x''))])"
  then show "WriteValue e (wire ssid_only_text) opts svc = (Inr (), svc, [])"
    by (simp add: WriteValue_def try_block_def utf8_decode_ssid_only example_texts_distinct
        lit_eq_iff)
qed

theorem WriteValue_rejected_inputs_witness:
  "utf8_decode [255] = Inl UnicodeDecodeError \<and>
   WriteValue (example_env 0) [255] [] (MyService_init 0) =
     (Inr (), (MyService_init 0)\<lparr>chrc := (chrc (MyService_init 0))\<lparr>chrc_value := [255]\<rparr>\<rparr>, []) \<and>
   json_loads (example_env 0) (lit ''not json'') = Inl JSONDecodeError \<and>
   WriteValue (example_env 0) (wire (lit ''not json'')) [] (MyService_init 0) =
     (Inr (), (MyService_init 0)\<lparr>chrc := (chrc (MyService_init 0))
        \<lparr>chrc_value := wire (lit ''not json'')\<rparr>\<rparr>, []) \<and>
   json_loads (example_env 0) ssid_only_text = Inr (JDict [(lit ''ssid'', JStr (lit ''x''))]) \<and>
   WriteValue (example_env 0) (wire ssid_only_text) [] (MyService_init 0) =
     (Inr (), MyService_init 0, []) \<and>
   ReadValue [] (MyService_init 0) = [0] \<and> wire ssid_only_text \<noteq> [0]"
proof -
  have a: "utf8_decode [255] = Inl UnicodeDecodeError"
    by (simp add: utf8_decode_def)
  have b: "json_loads (example_env 0) (lit ''not json'') = Inl JSONDecodeError"
    by (simp add: example_env_def example_texts_distinct)
  have c: "json_loads (example_env 0) ssid_only_text = Inr (JDict [(lit ''ssid'', JStr (lit ''x''))])"
    by (simp add: example_env_def)
  have d: "ReadValue [] (MyService_init 0) = [0]"
    by (simp add: ReadValue_def MyService_init_def MyCharacteristic_init_def Let_def)
  have f: "wire ssid_only_text \<noteq> [0]"
    by (simp add: wire_def ssid_only_text_def lit_def)
  show ?thesis
    using a b c d f WriteValue_rejected_inputs [of "[255]" "example_env 0" "[]" "MyService_init 0"]
    by simp
qed

subsection \<open>The scanner\<close>

lemma unique_loop_acc:
  "unique_loop seen acc ps = acc @ unique_loop seen [] ps"
proof (induction ps arbitrary: seen acc)
  case Nil
  show ?case by simp
next
  case (Cons p ps)
  obtain a n where p: "p = (a, n)"
    by (cases p)
  show ?case
    using Cons.IH [of "insert n seen" "acc @ [\<lparr>address = a, essid = n\<rparr>]"]
      Cons.IH [of "insert n seen" "[\<lparr>address = a, essid = n\<rparr>]"]
      Cons.IH [of seen acc]
    by (simp add: p)
qed

lemma unique_loop_Cons:
  "unique_loop seen [] ((a, n) # ps) =
     (if n \<notin> seen \<and> n \<noteq> [] then \<lparr>address = a, essid = n\<rparr> # unique_loop (insert n seen) [] ps
      else unique_loop seen [] ps)"
  using unique_loop_acc [of "insert n seen" "[\<lparr>address = a, essid = n\<rparr>]" ps] by simp

lemma unique_loop_names:
  "essid ` set (unique_loop seen [] ps) = snd ` set ps - seen - {[]}"
proof (induction ps arbitrary: seen)
  case Nil
  show ?case by simp
next
  case (Cons p ps)
  obtain a n where p: "p = (a, n)"
    by (cases p)
  show ?case
    unfolding p unique_loop_Cons using Cons.IH [of seen] Cons.IH [of "insert n seen"]
    by auto
qed

lemma unique_loop_distinct: "distinct (map essid (unique_loop seen [] ps))"
proof (induction ps arbitrary: seen)
  case Nil
  show ?case by simp
next
  case (Cons p ps)
  obtain a n where p: "p = (a, n)"
    by (cases p)
  have "n \<notin> essid ` set (unique_loop (insert n seen) [] ps)"
    by (simp add: unique_loop_names)
  then show ?case
    unfolding p unique_loop_Cons using Cons.IH [of seen] Cons.IH [of "insert n seen"]
    by simp
qed

lemma unique_loop_subseq: "subseq (map pair_of (unique_loop seen [] ps)) ps"
proof (induction ps arbitrary: seen)
  case Nil
  show ?case by simp
next
  case (Cons p ps)
  obtain a n where p: "p = (a, n)"
    by (cases p)
  have "pair_of \<lparr>address = a, essid = n\<rparr> = (a, n)"
    by (simp add: pair_of_def)
  then show ?case
    unfolding p unique_loop_Cons using Cons.IH [of seen] Cons.IH [of "insert n seen"]
    by (auto intro: list_emb_Cons)
qed

lemma unique_loop_length: "length (unique_loop seen [] ps) \<le> length ps"
  using list_emb_length [OF unique_loop_subseq [of seen ps]] by simp

lemma unique_loop_first:
  "r \<in> set (unique_loop seen [] ps) \<Longrightarrow>
     \<exists>i<length ps. ps ! i = pair_of r \<and> (\<forall>j<i. snd (ps ! j) \<noteq> essid r)"
proof (induction ps arbitrary: seen)
  case Nil
  then show ?case by simp
next
  case (Cons p ps)
  obtain a n where p: "p = (a, n)"
    by (cases p)
  show ?case
  proof (cases "r = \<lparr>address = a, essid = n\<rparr> \<and> n \<notin> seen \<and> n \<noteq> []")
    case True
    then have "(p # ps) ! 0 = pair_of r"
      by (simp add: p pair_of_def)
    then show ?thesis
      by (intro exI [of _ 0]) simp
  next
    case False
    define seen' where "seen' = (if n \<notin> seen \<and> n \<noteq> [] then insert n seen else seen)"
    from Cons.prems False have r: "r \<in> set (unique_loop seen' [] ps)"
      unfolding p unique_loop_Cons seen'_def by (auto split: if_splits)
    then have "essid r \<in> snd ` set ps - seen' - {[]}"
      using unique_loop_names [of seen' ps] by blast
    then have ne: "n \<noteq> essid r"
      by (auto simp: seen'_def split: if_splits)
    from Cons.IH [OF r] obtain i where i: "i < length ps" "ps ! i = pair_of r"
      "\<forall>j<i. snd (ps ! j) \<noteq> essid r"
      by blast
    have "\<forall>j<Suc i. snd ((p # ps) ! j) \<noteq> essid r"
    proof (intro allI impI)
      fix j
      assume "j < Suc i"
      then show "snd ((p # ps) ! j) \<noteq> essid r"
        using i(3) ne by (cases j) (simp_all add: p)
    qed
    with i(1,2) show ?thesis
      by (intro exI [of _ "Suc i"]) simp
  qed
qed

lemma scan_same_essid:
  "findall_cell nd same_essid_scan = [lit ''AA:BB:CC:DD:EE:01'', lit ''AA:BB:CC:DD:EE:02'']"
  "findall_essid same_essid_scan = [lit ''Home'', lit ''Home'']"
  by (simp_all add: same_essid_scan_def cell_block_def cell_line_def quoted_def lit_def
      match_cell_def match_essid_def starts_with_def is_digit_def is_addr_char_def Let_def)

lemma scan_empty_essid:
  "findall_cell nd empty_essid_scan = [lit ''AA:BB:CC:DD:EE:01'']"
  "findall_essid empty_essid_scan = [[]]"
  by (simp_all add: empty_essid_scan_def cell_block_def cell_line_def quoted_def lit_def
      match_cell_def match_essid_def starts_with_def is_digit_def is_addr_char_def Let_def)

lemma scan_shifted:
  "findall_cell nd shifted_scan = [lit ''AA:BB:CC:DD:EE:01'', lit ''AA:BB:CC:DD:EE:02'']"
  "findall_essid shifted_scan = [lit ''Net2'']"
  by (simp_all add: shifted_scan_def cell_block_def cell_line_def quoted_def lit_def
      match_cell_def match_essid_def starts_with_def is_digit_def is_addr_char_def Let_def)

lemma scan_networks_completed:
  "run e Iwlist_wlan0_scan = CompletedProcess rc out err \<Longrightarrow>
     scan_networks e = Inr (if rc = 0 then parse_scan (nonascii_digit e) out else [])"
  by (simp add: scan_networks_def run_check_def)

text \<open>
  An exception of \<open>subprocess.run\<close> itself (the command cannot be started, its output
  cannot be decoded) is no \<open>CalledProcessError\<close>: \<open>scan_networks\<close> lets it through to
  \<open>WriteValue\<close>, whose handler of the scan branch catches it.
\<close>

lemma scan_networks_run_error:
  "run e Iwlist_wlan0_scan = RunError (OtherError msg) \<Longrightarrow>
     scan_networks e = Inl (OtherError msg)"
  by (simp add: scan_networks_def run_check_def)

lemma scan_networks_run_error_cases:
  "run e Iwlist_wlan0_scan = RunError err \<Longrightarrow>
     scan_networks e = (case err of CalledProcessError n \<Rightarrow> Inr [] | _ \<Rightarrow> Inl err)"
  by (simp add: scan_networks_def run_check_def split: py_error.splits)

text \<open>
  Whatever \<open>subprocess.run\<close> raises in \<open>scan_networks\<close>, the write of \<open>SCAN_WIFI\<close>
  ends normally: the handler of the scan branch catches what \<open>scan_networks\<close> lets
  through, and nothing is pushed.
\<close>

lemma WriteValue_scan_run_error:
  "run e Iwlist_wlan0_scan = RunError err \<Longrightarrow>
     WriteValue e (wire (lit ''SCAN_WIFI'')) opts svc =
       (Inr (), svc, [Subprocess_run Iwlist_wlan0_scan])"
  by (cases err)
    (simp_all add: WriteValue_def try_block_def utf8_decode_SCAN_WIFI scan_wifi_def
      scan_networks_def run_check_def)

text \<open>
  Claim C7, as the code has it. When the scan tool has run, \<open>scan_networks\<close> returns a
  list and no error: the empty list when the tool exits with a status other than 0 (the
  \<open>CalledProcessError\<close> it catches), and the parse of its output otherwise. When
  \<open>subprocess.run\<close> raises any other exception, \<open>scan_networks\<close> does not return a
  list: the exception goes to its caller \<open>WriteValue\<close>, which catches it, pushes
  nothing and returns normally. For every output text, the parse cannot fail; it holds
  each ESSID at most once and never the empty one; it holds every ESSID that is not
  empty among the pairs of address and ESSID found; its records are pairs of the text,
  in the order of the text; and each record is the first pair of the text with its
  ESSID, so the first address wins. A text where one of the two patterns finds nothing,
  the empty text among them, gives the empty list. Two blocks with the same ESSID give
  the one record with the first address, and a block with the empty ESSID gives no
  record.
\<close>

theorem scan_networks_first_seen:
  "(run e Iwlist_wlan0_scan = CompletedProcess rc out err \<longrightarrow>
      scan_networks e = Inr (if rc = 0 then parse_scan (nonascii_digit e) out else [])) \<and>
   (run e Iwlist_wlan0_scan = RunError exc \<longrightarrow>
      scan_networks e = (case exc of CalledProcessError n \<Rightarrow> Inr [] | _ \<Rightarrow> Inl exc) \<and>
      WriteValue e (wire (lit ''SCAN_WIFI'')) opts svc =
        (Inr (), svc, [Subprocess_run Iwlist_wlan0_scan])) \<and>
   distinct (map essid (parse_scan nd output)) \<and>
   [] \<notin> essid ` set (parse_scan nd output) \<and>
   essid ` set (parse_scan nd output) = snd ` set (scan_pairs nd output) - {[]} \<and>
   subseq (map pair_of (parse_scan nd output)) (scan_pairs nd output) \<and>
   (\<forall>r \<in> set (parse_scan nd output).
      \<exists>i<length (scan_pairs nd output).
        scan_pairs nd output ! i = pair_of r \<and>
        (\<forall>j<i. snd (scan_pairs nd output ! j) \<noteq> essid r)) \<and>
   (findall_cell nd output = [] \<or> findall_essid output = [] \<longrightarrow> parse_scan nd output = []) \<and>
   parse_scan nd [] = [] \<and>
   parse_scan nd same_essid_scan = [\<lparr>address = lit ''AA:BB:CC:DD:EE:01'', essid = lit ''Home''\<rparr>] \<and>
   parse_scan nd empty_essid_scan = []"
proof -
  have names: "essid ` set (parse_scan nd output) = snd ` set (scan_pairs nd output) - {[]}"
    unfolding parse_scan_def scan_pairs_def using unique_loop_names [of "{}"] by simp
  have "parse_scan nd same_essid_scan =
      [\<lparr>address = lit ''AA:BB:CC:DD:EE:01'', essid = lit ''Home''\<rparr>]"
    by (simp add: parse_scan_def scan_same_essid lit_Nil_iff)
  moreover have "parse_scan nd empty_essid_scan = []"
    by (simp add: parse_scan_def scan_empty_essid)
  moreover have "parse_scan nd output = []"
    if "findall_cell nd output = [] \<or> findall_essid output = []"
    using that by (auto simp: parse_scan_def)
  moreover have "\<forall>r \<in> set (parse_scan nd output).
      \<exists>i<length (scan_pairs nd output).
        scan_pairs nd output ! i = pair_of r \<and>
        (\<forall>j<i. snd (scan_pairs nd output ! j) \<noteq> essid r)"
    unfolding parse_scan_def scan_pairs_def by (intro ballI unique_loop_first)
  moreover have "[] \<notin> essid ` set (parse_scan nd output)"
    unfolding names by simp
  moreover have "scan_networks e = (case exc of CalledProcessError n \<Rightarrow> Inr [] | _ \<Rightarrow> Inl exc) \<and>
      WriteValue e (wire (lit ''SCAN_WIFI'')) opts svc =
        (Inr (), svc, [Subprocess_run Iwlist_wlan0_scan])"
    if "run e Iwlist_wlan0_scan = RunError exc"
    using scan_networks_run_error_cases [OF that] WriteValue_scan_run_error [OF that] by simp
  ultimately show ?thesis
    using names scan_networks_completed [of e rc out err]
    by (simp add: parse_scan_def scan_pairs_def unique_loop_distinct unique_loop_subseq)
qed

theorem scan_networks_first_seen_witness:
  "run (scan_env 1 same_essid_scan) Iwlist_wlan0_scan = CompletedProcess 1 same_essid_scan [] \<and>
   scan_networks (scan_env 1 same_essid_scan) = Inr [] \<and>
   run (scan_env 0 same_essid_scan) Iwlist_wlan0_scan = CompletedProcess 0 same_essid_scan [] \<and>
   scan_networks (scan_env 0 same_essid_scan) =
     Inr [\<lparr>address = lit ''AA:BB:CC:DD:EE:01'', essid = lit ''Home''\<rparr>] \<and>
   run launch_error_env Iwlist_wlan0_scan = RunError (OtherError (lit ''FileNotFoundError'')) \<and>
   scan_networks launch_error_env = Inl (OtherError (lit ''FileNotFoundError'')) \<and>
   WriteValue launch_error_env (wire (lit ''SCAN_WIFI'')) [] (MyService_init 0) =
     (Inr (), MyService_init 0, [Subprocess_run Iwlist_wlan0_scan]) \<and>
   findall_essid (lit ''no cell here'') = [] \<and>
   parse_scan (\<lambda>c. False) (lit ''no cell here'') = []"
proof -
  have r: "run (scan_env rc out) Iwlist_wlan0_scan = CompletedProcess rc out []" for rc out
    by (simp add: scan_env_def)
  have nd: "nonascii_digit (scan_env rc out) = (\<lambda>c. False)" for rc out
    by (simp add: scan_env_def example_env_def)
  have none: "findall_essid (lit ''no cell here'') = []"
    by (simp add: lit_def match_essid_def starts_with_def)
  have l: "run launch_error_env Iwlist_wlan0_scan = RunError (OtherError (lit ''FileNotFoundError''))"
    by (simp add: launch_error_env_def)
  have a: "scan_networks (scan_env 1 same_essid_scan) = Inr []"
    using r [of 1 same_essid_scan]
      scan_networks_first_seen [where e = "scan_env 1 same_essid_scan" and rc = 1
        and out = same_essid_scan and err = "[]"]
    by simp
  have b: "scan_networks (scan_env 0 same_essid_scan) =
      Inr [\<lparr>address = lit ''AA:BB:CC:DD:EE:01'', essid = lit ''Home''\<rparr>]"
    using r [of 0 same_essid_scan]
      scan_networks_first_seen [where e = "scan_env 0 same_essid_scan" and rc = 0
        and out = same_essid_scan and err = "[]" and nd = "\<lambda>c. False"]
    by (simp add: nd)
  have c: "scan_networks launch_error_env = Inl (OtherError (lit ''FileNotFoundError'')) \<and>
      WriteValue launch_error_env (wire (lit ''SCAN_WIFI'')) [] (MyService_init 0) =
        (Inr (), MyService_init 0, [Subprocess_run Iwlist_wlan0_scan])"
    using l
      scan_networks_first_seen [where e = launch_error_env
        and exc = "OtherError (lit ''FileNotFoundError'')" and opts = "[]"
        and svc = "MyService_init 0"]
    by simp
  have d: "parse_scan (\<lambda>c. False) (lit ''no cell here'') = []"
    using none
      scan_networks_first_seen [of _ _ _ _ _ _ _ "\<lambda>c. False" "lit ''no cell here''"]
    by simp
  show ?thesis
    using a b c d r [of 1 same_essid_scan] r [of 0 same_essid_scan] l none by simp
qed

text \<open>
  Where the scan tool cannot be started, \<open>scan_networks\<close> gives no empty list but the
  exception of \<open>subprocess.run\<close>.
\<close>

theorem scan_networks_launch_error_counterexample:
  "run launch_error_env Iwlist_wlan0_scan = RunError (OtherError (lit ''FileNotFoundError'')) \<and>
   scan_networks launch_error_env = Inl (OtherError (lit ''FileNotFoundError'')) \<and>
   scan_networks launch_error_env \<noteq> Inr []"
  by (simp add: launch_error_env_def scan_networks_def run_check_def)

text \<open>
  Claim C10. For every output text, the records of the parse number at most the shorter
  of the two lists of matches, and each record holds the address and the ESSID found at
  one and the same position below that length: addresses and ESSIDs are paired by
  position, and what one list has beyond the other is dropped without an error. So an
  address can come with the ESSID of a later block: in a text whose first cell has no
  ESSID line, the address of the first cell is paired with the ESSID of the second, and
  the address of the second is dropped.
\<close>

theorem parse_scan_by_position:
  "length (parse_scan nd output) \<le> min (length (findall_cell nd output)) (length (findall_essid output)) \<and>
   (\<forall>r \<in> set (parse_scan nd output).
      \<exists>i<min (length (findall_cell nd output)) (length (findall_essid output)).
        address r = findall_cell nd output ! i \<and> essid r = findall_essid output ! i) \<and>
   findall_cell nd shifted_scan = [lit ''AA:BB:CC:DD:EE:01'', lit ''AA:BB:CC:DD:EE:02''] \<and>
   findall_essid shifted_scan = [lit ''Net2''] \<and>
   parse_scan nd shifted_scan = [\<lparr>address = lit ''AA:BB:CC:DD:EE:01'', essid = lit ''Net2''\<rparr>]"
proof -
  let ?as = "findall_cell nd output" and ?es = "findall_essid output"
  have "length (parse_scan nd output) \<le> min (length ?as) (length ?es)"
    unfolding parse_scan_def using unique_loop_length [of "{}" "zip ?as ?es"] by simp
  moreover have "\<exists>i<min (length ?as) (length ?es). address r = ?as ! i \<and> essid r = ?es ! i"
    if "r \<in> set (parse_scan nd output)" for r
  proof -
    from that obtain i where i: "i < length (zip ?as ?es)" "zip ?as ?es ! i = pair_of r"
      unfolding parse_scan_def using unique_loop_first [of r "{}" "zip ?as ?es"] by blast
    then have "address r = ?as ! i \<and> essid r = ?es ! i"
      by (simp add: pair_of_def)
    with i(1) show ?thesis
      by auto
  qed
  moreover have "parse_scan nd shifted_scan =
      [\<lparr>address = lit ''AA:BB:CC:DD:EE:01'', essid = lit ''Net2''\<rparr>]"
    by (simp add: parse_scan_def scan_shifted lit_Nil_iff)
  ultimately show ?thesis
    by (simp add: scan_shifted)
qed

theorem parse_scan_by_position_witness:
  "length (parse_scan (\<lambda>c. False) shifted_scan) \<le> min 2 1 \<and>
   set (parse_scan (\<lambda>c. False) shifted_scan) =
     {\<lparr>address = lit ''AA:BB:CC:DD:EE:01'', essid = lit ''Net2''\<rparr>} \<and>
   address \<lparr>address = lit ''AA:BB:CC:DD:EE:01'', essid = lit ''Net2''\<rparr> =
     findall_cell (\<lambda>c. False) shifted_scan ! 0 \<and>
   essid \<lparr>address = lit ''AA:BB:CC:DD:EE:01'', essid = lit ''Net2''\<rparr> =
     findall_essid shifted_scan ! 0"
  using parse_scan_by_position [of "\<lambda>c. False" shifted_scan]
  by simp

subsection \<open>The managed objects\<close>

lemma update_fresh: "k \<notin> fst ` set al \<Longrightarrow> AList.update k v al = al @ [(k, v)]"
  by (induction al) auto

lemma foldl_update_fresh:
  "distinct (map fst (al @ es)) \<Longrightarrow>
     foldl (\<lambda>m (k, v). AList.update k v m) al es = al @ es"
proof (induction es arbitrary: al)
  case Nil
  show ?case by simp
next
  case (Cons x es)
  obtain k v where x: "x = (k, v)"
    by (cases x)
  from Cons.prems have fresh: "k \<notin> fst ` set al" and d: "distinct (map fst ((al @ [(k, v)]) @ es))"
    by (auto simp: x)
  show ?case
    using Cons.IH [OF d] by (simp add: x update_fresh [OF fresh])
qed

lemma foldl_update_keys:
  "set (map fst (foldl (\<lambda>m (k, v). AList.update k v m) al es)) = set (map fst (al @ es)) \<and>
   (distinct (map fst al) \<longrightarrow> distinct (map fst (foldl (\<lambda>m (k, v). AList.update k v m) al es)))"
proof (induction es arbitrary: al)
  case Nil
  show ?case by simp
next
  case (Cons x es)
  obtain k v where x: "x = (k, v)"
    by (cases x)
  show ?case
    using Cons.IH [of "AList.update k v al"] AList.dom_update [of k v al]
    by (auto simp: x AList.distinct_update)
qed

lemma foldl_concat_map:
  "foldl f a (concat (map g xs)) = foldl (\<lambda>b x. foldl f b (g x)) a xs"
  by (induction xs arbitrary: a) simp_all

lemma GetManagedObjects_fold:
  "GetManagedObjects app = foldl (\<lambda>m (k, v). AList.update k v m) [] (object_entries app)"
proof -
  have step: "foldl (\<lambda>mapped ch. AList.update (get_path ch) (get_properties service ch) mapped)
        (AList.update (service_path service) (MyService_get_properties service) mapped)
        (characteristics service) =
      foldl (\<lambda>m (k, v). AList.update k v m) mapped (service_entries service)"
    for mapped service
    by (simp add: service_entries_def foldl_map)
  show ?thesis
    unfolding GetManagedObjects_def object_entries_def step foldl_concat_map ..
qed

lemma GetManagedObjects_value_independent:
  "GetManagedObjects (app\<lparr>services := map (\<lambda>s. s\<lparr>chrc := (chrc s)\<lparr>chrc_value := f s\<rparr>\<rparr>) (services app)\<rparr>) =
   GetManagedObjects app"
proof -
  have "service_entries (s\<lparr>chrc := (chrc s)\<lparr>chrc_value := v\<rparr>\<rparr>) = service_entries s" for s v
    by (simp add: service_entries_def characteristics_def MyService_get_properties_def
        MyCharacteristic_get_properties_def NotifyCharacteristic_get_properties_def)
  then show ?thesis
    by (simp add: GetManagedObjects_fold object_entries_def comp_def)
qed

lemma written_service_value:
  "written_service = (MyService_init 0)\<lparr>chrc := (chrc (MyService_init 0))
     \<lparr>chrc_value := wire (lit ''not json'')\<rparr>\<rparr>"
proof -
  have "utf8_decode (wire (lit ''not json'')) = Inr (lit ''not json'')"
    by (simp add: utf8_decode_def wire_def lit_def)
  moreover have "json_loads (example_env 0) (lit ''not json'') = Inl JSONDecodeError"
    by (simp add: example_env_def example_texts_distinct)
  ultimately show ?thesis
    by (simp add: written_service_def WriteValue_def try_block_def example_texts_distinct)
qed

lemma Application_init_services: "services Application_init = [MyService_init 0]"
  by (simp add: Application_init_def add_service_def)

lemma Application_init_paths:
  "app_path Application_init = lit ''/org/bluez/example''"
  "object_paths Application_init =
     [lit ''/org/bluez/example/service0'', lit ''/org/bluez/example/service0/char0'',
      lit ''/org/bluez/example/service0/char_notify1'']"
  by (simp_all add: object_paths_def object_entries_def service_entries_def
      Application_init_def add_service_def MyService_init_def characteristics_def
      MyCharacteristic_init_def NotifyCharacteristic_init_def PATH_BASE_def lit_def Let_def)

text \<open>
  No method changes a path: a write leaves the three paths of the service as they were,
  and so do \<open>StartNotify\<close> and \<open>StopNotify\<close>. The paths that \<open>GetManagedObjects\<close>
  reports are those the constructors have set.
\<close>

lemma notify_paths:
  "notify m svc = (r, svc', evs) \<Longrightarrow>
     service_path svc' = service_path svc \<and> chrc svc' = chrc svc \<and>
     notify_path (notify_char svc') = notify_path (notify_char svc)"
  by (auto simp: notify_def send_notification_def split: prod.splits if_splits sum.splits)

lemma try_block_paths:
  "try_block e val svc = (c, svc', evs) \<Longrightarrow>
     service_path svc' = service_path svc \<and> chrc svc' = chrc svc \<and>
     notify_path (notify_char svc') = notify_path (notify_char svc)"
  by (auto simp: try_block_def scan_wifi_def connect_wifi_def
      split: sum.splits if_splits prod.splits process.splits dest!: notify_paths)

lemma WriteValue_paths:
  "WriteValue e val opts svc = (r, svc', evs) \<Longrightarrow>
     service_path svc' = service_path svc \<and> chrc_path (chrc svc') = chrc_path (chrc svc) \<and>
     notify_path (notify_char svc') = notify_path (notify_char svc)"
  by (auto simp: WriteValue_def split: prod.splits completion.splits dest!: try_block_paths)

lemma StartNotify_StopNotify_path:
  "notify_path (StartNotify n) = notify_path n" "notify_path (StopNotify n) = notify_path n"
  by (simp_all add: StartNotify_def StopNotify_def)

text \<open>
  In every state of the application the root, the service and the two characteristics
  have the four paths of the start, which differ from one another.
\<close>

lemma object_paths_single:
  "services app = [svc] \<Longrightarrow>
     object_paths app = [service_path svc, chrc_path (chrc svc), notify_path (notify_char svc)]"
  by (simp add: object_paths_def object_entries_def service_entries_def characteristics_def)

lemma reachable_paths:
  "reachable app \<Longrightarrow>
     (\<exists>svc. services app = [svc]) \<and> app_path app = app_path Application_init \<and>
     object_paths app = object_paths Application_init"
proof (induction rule: reachable.induct)
  case reach_init
  show ?case by (simp add: Application_init_services)
next
  case (reach_write app svc e val opts r svc' evs)
  then show ?case
    using WriteValue_paths [of e val opts svc r svc' evs]
    by (simp add: object_paths_single [of _ svc'] object_paths_single [of app svc, symmetric])
next
  case (reach_start app svc)
  then show ?case
    by (simp add: object_paths_single [of app svc, symmetric] StartNotify_StopNotify_path
        object_paths_single [of _ "svc\<lparr>notify_char := StartNotify (notify_char svc)\<rparr>"])
next
  case (reach_stop app svc)
  then show ?case
    by (simp add: object_paths_single [of app svc, symmetric] StartNotify_StopNotify_path
        object_paths_single [of _ "svc\<lparr>notify_char := StopNotify (notify_char svc)\<rparr>"])
qed

lemma reachable_distinct_paths:
  "reachable app \<Longrightarrow> distinct (app_path app # object_paths app)"
  using reachable_paths [of app] by (simp add: Application_init_paths lit_eq_iff)

text \<open>
  Claim C6, as the code has it. \<open>GetManagedObjects\<close> returns a dictionary whose keys are
  the paths of the services and of their characteristics, each once. In every state that
  the application reaches, the root and these objects have paths that differ from one
  another (the bus refuses a second object at a path); where they do, the dictionary
  holds exactly one entry per service
  and one per characteristic, in that order, each with the property map the object has at
  the time of the call, and no entry for the root; the map of a notify characteristic
  carries its current value. An application without services gives the empty dictionary,
  and the call cannot fail. The last-written value of the readable/writable
  characteristic is not in the result: changing it changes no entry. The result is a
  function of the state alone, and the call leaves the state as it is.
\<close>

theorem GetManagedObjects_entries:
  "set (map fst (GetManagedObjects app)) = set (object_paths app) \<and>
   distinct (map fst (GetManagedObjects app)) \<and>
   (services app = [] \<longrightarrow> GetManagedObjects app = []) \<and>
   (reachable app \<longrightarrow> distinct (app_path app # object_paths app)) \<and>
   (distinct (app_path app # object_paths app) \<longrightarrow>
      GetManagedObjects app = object_entries app \<and>
      length (GetManagedObjects app) = (\<Sum>svc\<leftarrow>services app. 1 + length (characteristics svc)) \<and>
      app_path app \<notin> set (map fst (GetManagedObjects app)) \<and>
      (\<forall>svc \<in> set (services app).
         map_of (GetManagedObjects app) (service_path svc) = Some (MyService_get_properties svc) \<and>
         map_of (GetManagedObjects app) (chrc_path (chrc svc)) =
           Some (MyCharacteristic_get_properties svc) \<and>
         map_of (GetManagedObjects app) (notify_path (notify_char svc)) =
           Some [(GATT_CHRC_IFACE,
                  [(lit ''UUID'', String (notify_uuid (notify_char svc))),
                   (lit ''Service'', ObjectPath (service_path svc)),
                   (lit ''Flags'', StringArray (notify_flags (notify_char svc))),
                   (lit ''Value'', ByteArray (notify_value (notify_char svc)))])])) \<and>
   GetManagedObjects
     (app\<lparr>services := map (\<lambda>s. s\<lparr>chrc := (chrc s)\<lparr>chrc_value := v\<rparr>\<rparr>) (services app)\<rparr>) =
     GetManagedObjects app"
proof -
  let ?upd = "\<lambda>m (k, v). AList.update k v m"
  have keys: "set (map fst (GetManagedObjects app)) = set (object_paths app)"
    and dist: "distinct (map fst (GetManagedObjects app))"
    using foldl_update_keys [of "[]" "object_entries app"]
    by (simp_all add: GetManagedObjects_fold object_paths_def)
  have empty: "GetManagedObjects app = []" if "services app = []"
    using that by (simp add: GetManagedObjects_fold object_entries_def)
  have main: "GetManagedObjects app = object_entries app \<and>
      length (GetManagedObjects app) = (\<Sum>svc\<leftarrow>services app. 1 + length (characteristics svc)) \<and>
      app_path app \<notin> set (map fst (GetManagedObjects app)) \<and>
      (\<forall>svc \<in> set (services app).
         map_of (GetManagedObjects app) (service_path svc) = Some (MyService_get_properties svc) \<and>
         map_of (GetManagedObjects app) (chrc_path (chrc svc)) =
           Some (MyCharacteristic_get_properties svc) \<and>
         map_of (GetManagedObjects app) (notify_path (notify_char svc)) =
           Some [(GATT_CHRC_IFACE,
                  [(lit ''UUID'', String (notify_uuid (notify_char svc))),
                   (lit ''Service'', ObjectPath (service_path svc)),
                   (lit ''Flags'', StringArray (notify_flags (notify_char svc))),
                   (lit ''Value'', ByteArray (notify_value (notify_char svc)))])])"
    if d: "distinct (app_path app # object_paths app)"
  proof -
    from d have d': "distinct (map fst (object_entries app))"
      by (simp add: object_paths_def)
    have eq: "GetManagedObjects app = object_entries app"
      using foldl_update_fresh [of "[]" "object_entries app"] d'
      by (simp add: GetManagedObjects_fold)
    have len: "length (object_entries app) = (\<Sum>svc\<leftarrow>services app. 1 + length (characteristics svc))"
      by (simp add: object_entries_def length_concat comp_def service_entries_def)
    have root: "app_path app \<notin> set (map fst (GetManagedObjects app))"
      using d keys by simp
    have look: "map_of (object_entries app) k = Some ps"
      if "svc \<in> set (services app)" "(k, ps) \<in> set (service_entries svc)" for svc k ps
    proof -
      from that have "(k, ps) \<in> set (object_entries app)"
        by (auto simp: object_entries_def)
      with d' show ?thesis
        by simp
    qed
    have "map_of (object_entries app) (service_path svc) = Some (MyService_get_properties svc) \<and>
         map_of (object_entries app) (chrc_path (chrc svc)) =
           Some (MyCharacteristic_get_properties svc) \<and>
         map_of (object_entries app) (notify_path (notify_char svc)) =
           Some (NotifyCharacteristic_get_properties svc)"
      if "svc \<in> set (services app)" for svc
      using look [OF that] by (simp add: service_entries_def characteristics_def)
    then show ?thesis
      using eq len root by (simp add: NotifyCharacteristic_get_properties_def)
  qed
  show ?thesis
    using keys dist empty main reachable_distinct_paths [of app]
      GetManagedObjects_value_independent [where app = app and f = "\<lambda>s. v"]
    by blast
qed

theorem GetManagedObjects_entries_witness:
  "reachable Application_init \<and>
   distinct (app_path Application_init # object_paths Application_init) \<and>
   map fst (GetManagedObjects Application_init) =
     [lit ''/org/bluez/example/service0'', lit ''/org/bluez/example/service0/char0'',
      lit ''/org/bluez/example/service0/char_notify1''] \<and>
   length (GetManagedObjects Application_init) = 3 \<and>
   MyService_init 0 \<in> set (services Application_init) \<and>
   map_of (GetManagedObjects Application_init) (lit ''/org/bluez/example/service0/char_notify1'') =
     Some [(GATT_CHRC_IFACE,
            [(lit ''UUID'', String (lit ''12345678-1234-5678-1234-56789abcdef2'')),
             (lit ''Service'', ObjectPath (lit ''/org/bluez/example/service0'')),
             (lit ''Flags'', StringArray [lit ''notify'']),
             (lit ''Value'', ByteArray [])])] \<and>
   GetManagedObjects (Application_init\<lparr>services := []\<rparr>) = []"
proof -
  have d: "distinct (app_path Application_init # object_paths Application_init)"
    using GetManagedObjects_entries [where app = Application_init and v = "[]"] reach_init
    by blast
  have chars: "characteristics (MyService_init 0) =
      [My (chrc (MyService_init 0)), Notify (notify_char (MyService_init 0))]"
    by (simp add: characteristics_def)
  have n: "notify_char (MyService_init 0) =
      \<lparr>notify_index = 1, notify_uuid = lit ''12345678-1234-5678-1234-56789abcdef2'',
       notify_flags = [lit ''notify''], notifying = False, notify_value = [],
       notify_path = lit ''/org/bluez/example/service0/char_notify1''\<rparr>"
    and p: "service_path (MyService_init 0) = lit ''/org/bluez/example/service0''"
    by (simp_all add: MyService_init_def NotifyCharacteristic_init_def PATH_BASE_def Let_def
        lit_def)
  from d GetManagedObjects_entries [where app = Application_init and v = "[]"]
  have eq: "GetManagedObjects Application_init = object_entries Application_init"
    by simp
  have len: "length (GetManagedObjects Application_init) = 3"
    unfolding eq by (simp add: object_entries_def service_entries_def Application_init_services chars)
  have "notify_path (notify_char (MyService_init 0)) \<noteq> service_path (MyService_init 0)"
    "notify_path (notify_char (MyService_init 0)) \<noteq> chrc_path (chrc (MyService_init 0))"
    by (simp_all add: MyService_init_def NotifyCharacteristic_init_def MyCharacteristic_init_def
        Let_def lit_def)
  then have look: "map_of (GetManagedObjects Application_init)
        (notify_path (notify_char (MyService_init 0))) =
      Some (NotifyCharacteristic_get_properties (MyService_init 0))"
    unfolding eq by (simp add: object_entries_def service_entries_def Application_init_services chars)
  have keys: "map fst (GetManagedObjects Application_init) = object_paths Application_init"
    by (simp add: eq object_paths_def)
  from GetManagedObjects_entries [where app = "Application_init\<lparr>services := []\<rparr>" and v = "[]"]
  have empty: "GetManagedObjects (Application_init\<lparr>services := []\<rparr>) = []"
    by simp
  show ?thesis
    using d keys len look empty reach_init
    by (simp add: Application_init_services Application_init_paths chars n p
        NotifyCharacteristic_get_properties_def)
qed

text \<open>
  After a write of \<open>not json\<close> the last-written value is the eight bytes written and no
  longer \<open>[0]\<close>, and \<open>GetManagedObjects\<close> returns what it returned before the write.
\<close>

theorem GetManagedObjects_not_last_written_counterexample:
  "ReadValue [] (MyService_init 0) = [0] \<and>
   ReadValue [] written_service = wire (lit ''not json'') \<and>
   wire (lit ''not json'') \<noteq> [0] \<and>
   services Application_init = [MyService_init 0] \<and>
   services written_application = [written_service] \<and>
   GetManagedObjects written_application = GetManagedObjects Application_init"
proof -
  have "written_application =
      Application_init\<lparr>services := map (\<lambda>s. s\<lparr>chrc := (chrc s)\<lparr>chrc_value := wire (lit ''not json'')\<rparr>\<rparr>)
        (services Application_init)\<rparr>"
    by (simp add: written_application_def written_service_value Application_init_services)
  then have "GetManagedObjects written_application = GetManagedObjects Application_init"
    using GetManagedObjects_value_independent
      [where app = Application_init and f = "\<lambda>s. wire (lit ''not json'')"]
    by simp
  moreover have "ReadValue [] (MyService_init 0) = [0]"
    by (simp add: ReadValue_def MyService_init_def MyCharacteristic_init_def Let_def)
  moreover have "wire (lit ''not json'') \<noteq> [0]"
    by (simp add: wire_def lit_def)
  ultimately show ?thesis
    by (simp add: Application_init_services written_application_def written_service_value
        ReadValue_def)
qed

lemma reachable_GetManagedObjects:
  "reachable app \<Longrightarrow> GetManagedObjects app = object_entries app"
  using foldl_update_fresh [of "[]" "object_entries app"] reachable_distinct_paths [of app]
  by (simp add: GetManagedObjects_fold object_paths_def)

end
